theory Spec2Isabelle
  imports Main "HOL-Library.Sublist"
begin

section \<open>JavaScript values and TypeScript interfaces\<close>

text \<open>
  The frontend exchanges JSON with the REST API. A JavaScript value is modelled by
  \<open>jsval\<close>; an object is a list of properties in declaration order, and reading a
  property that is not there yields \<open>undefined\<close> (\<open>None\<close> in \<open>getprop\<close>).
\<close>

datatype jsval =
    JUndefined
  | JNull
  | JBool bool
  | JNum int
  | JStr string
  | JArr "jsval list"
  | JObj "(string \<times> jsval) list"

fun getprop :: "jsval \<Rightarrow> string \<Rightarrow> jsval option" where
  "getprop (JObj ps) k = map_of ps k"
| "getprop _ k = None"

text \<open>
  JavaScript truthiness, as used by \<open>if (x)\<close>, \<open>x && y\<close> and \<open>x || y\<close>:
  \<open>undefined\<close>, \<open>null\<close>, \<open>false\<close>, \<open>0\<close> and the empty string are falsy.
\<close>

fun truthy :: "jsval \<Rightarrow> bool" where
  "truthy JUndefined = False"
| "truthy JNull = False"
| "truthy (JBool b) = b"
| "truthy (JNum n) = (n \<noteq> 0)"
| "truthy (JStr s) = (s \<noteq> [])"
| "truthy (JArr _) = True"
| "truthy (JObj _) = True"

text \<open>
  A TypeScript interface is the list of its property declarations: name, type, and
  whether the property is optional (\<open>name?: type\<close>).
\<close>

datatype ts_type =
    TString
  | TNumber
  | TBoolean
  | TLiterals "string list"
  | TStringArray

type_synonym interface = "(string \<times> ts_type \<times> bool) list"

fun has_type :: "jsval \<Rightarrow> ts_type \<Rightarrow> bool" where
  "has_type v TString = (case v of JStr _ \<Rightarrow> True | _ \<Rightarrow> False)"
| "has_type v TNumber = (case v of JNum _ \<Rightarrow> True | _ \<Rightarrow> False)"
| "has_type v TBoolean = (case v of JBool _ \<Rightarrow> True | _ \<Rightarrow> False)"
| "has_type v (TLiterals ls) = (case v of JStr s \<Rightarrow> s \<in> set ls | _ \<Rightarrow> False)"
| "has_type v TStringArray =
     (case v of JArr vs \<Rightarrow> list_all (\<lambda>x. case x of JStr _ \<Rightarrow> True | _ \<Rightarrow> False) vs | _ \<Rightarrow> False)"

text \<open>
  An object is a value of an interface when every required property is present with
  its declared type, and every optional property is absent or has its declared type.
\<close>

definition conforms :: "jsval \<Rightarrow> interface \<Rightarrow> bool" where
  "conforms v iface =
     list_all (\<lambda>(name, ty, optional).
        case getprop v name of
          None \<Rightarrow> optional
        | Some x \<Rightarrow> has_type x ty) iface"

definition declares :: "interface \<Rightarrow> string \<Rightarrow> bool" where
  "declares iface name = (name \<in> set (map fst iface))"

section \<open>The exported types (types module)\<close>

text \<open>
  \<^verbatim>\<open>
  export interface Incident {
      id: string;
      title: string;
      severity: string;
      category: string;
      status: 'open' | 'investigating' | 'resolved' | 'closed';
      created_at: string;
      resolved_at?: string;
  }
  \<close>
\<close>

definition Incident_status :: "string list" where
  "Incident_status = [''open'', ''investigating'', ''resolved'', ''closed'']"

definition Incident :: interface where
  "Incident =
     [ (''id'', TString, False),
       (''title'', TString, False),
       (''severity'', TString, False),
       (''category'', TString, False),
       (''status'', TLiterals Incident_status, False),
       (''created_at'', TString, False),
       (''resolved_at'', TString, True) ]"

text \<open>An incident of this type, as the incidents endpoint may deliver it.\<close>

definition incident_example :: jsval where
  "incident_example =
     JObj [ (''id'', JStr ''inc-1''),
            (''title'', JStr ''Large transfer''),
            (''severity'', JStr ''CRITICAL''),
            (''category'', JStr ''whale''),
            (''status'', JStr ''investigating''),
            (''created_at'', JStr ''2025-01-01T00:00:00Z'') ]"

section \<open>StatusBadge\<close>

text \<open>
  \<open>clsx\<close> joins its truthy arguments with single spaces. The arguments of the call in
  \<open>StatusBadge\<close> are strings or \<open>undefined\<close>, modelled as \<open>string option\<close>.
\<close>

fun clsx :: "string option list \<Rightarrow> string" where
  "clsx [] = []"
| "clsx (None # xs) = clsx xs"
| "clsx (Some s # xs) =
     (if s = [] then clsx xs
      else if clsx xs = [] then s
      else s @ '' '' @ clsx xs)"

text \<open>
  \<open>String.prototype.toUpperCase\<close> on the ASCII range: a lower-case letter is replaced
  by its upper-case counterpart, every other character is kept.
\<close>

definition toUpperCase_char :: "char \<Rightarrow> char" where
  "toUpperCase_char c =
     (case map_of (zip ''abcdefghijklmnopqrstuvwxyz'' ''ABCDEFGHIJKLMNOPQRSTUVWXYZ'') c of
        Some u \<Rightarrow> u
      | None \<Rightarrow> c)"

definition toUpperCase :: "string \<Rightarrow> string" where
  "toUpperCase s = map toUpperCase_char s"

record span =
  className :: string
  children :: string

definition baseClasses :: string where
  "baseClasses = ''inline-flex items-center px-2.5 py-0.5 rounded-full text-xs font-medium''"

definition statusClasses :: "(string \<times> string) list" where
  "statusClasses =
     [ (''open'', ''bg-red-100 text-red-700''),
       (''acknowledged'', ''bg-yellow-100 text-yellow-700''),
       (''resolved'', ''bg-green-100 text-green-700'') ]"

text \<open>
  \<open>StatusBadge({ status, className })\<close>: the status-specific class is the property
  \<open>statusClasses[status]\<close>, which is \<open>undefined\<close> for a key the object literal does not
  have.
\<close>

definition StatusBadge :: "string \<Rightarrow> string option \<Rightarrow> span" where
  "StatusBadge status cn =
     \<lparr> className = clsx [Some baseClasses, map_of statusClasses status, cn],
       children = toUpperCase status \<rparr>"

section \<open>IncidentCard\<close>

text \<open>
  \<open>IncidentCard\<close> receives an \<open>Incident\<close> and shows the row "Protocol: ..." under the
  condition \<open>incident.protocol && (...)\<close>: the row is rendered with the property's value
  when the property is there and truthy, and not at all otherwise.
\<close>

definition IncidentCard_protocol_row :: "jsval \<Rightarrow> jsval option" where
  "IncidentCard_protocol_row incident =
     (case getprop incident ''protocol'' of
        None \<Rightarrow> None
      | Some v \<Rightarrow> if truthy v then Some v else None)"

section \<open>ApiClient\<close>

text \<open>
  The class wraps one axios instance. Every method issues exactly one request through
  it; the request configuration records the HTTP method (\<open>req_method\<close>), the URL relative to
  \<open>BASE_URL\<close>, the query parameters (\<open>{ params }\<close>), the body and the headers. The
  instance is created with the default header \<open>Content-Type: application/json\<close>.
\<close>

datatype http_method = GET | POST | PUT | DELETE | PATCH

record request_config =
  req_method :: http_method
  url :: string
  params :: jsval
  data :: jsval
  headers :: "string \<rightharpoonup> string"

definition default_headers :: "string \<rightharpoonup> string" where
  "default_headers = [''Content-Type'' \<mapsto> ''application/json'']"

definition mk_request :: "http_method \<Rightarrow> string \<Rightarrow> jsval \<Rightarrow> jsval \<Rightarrow> request_config" where
  "mk_request m u ps body =
     \<lparr> req_method = m, url = u, params = ps, data = body, headers = default_headers \<rparr>"

text \<open>
  One constructor per method of the class, with the method's arguments. Arguments typed
  \<open>string\<close> or \<open>number\<close> in the source carry that type; arguments typed \<open>any\<close> or as
  an object of optional properties are \<open>jsval\<close>; a parameter with a default value is an
  \<open>option\<close>, \<open>None\<close> standing for the omitted argument.
\<close>

datatype api_call =
    getDetections jsval
  | getDetection string
  | getDetectionStats
  | submitDetectionFeedback string jsval
  | getIncidents jsval
  | updateIncident string jsval
  | resolveIncident string string
  | getRoutingRules
  | createRoutingRule jsval
  | updateRoutingRule string jsval
  | deleteRoutingRule string
  | initDefaultRoutingRules
  | getNotificationLogs jsval
  | getNotificationStats
  | getWebhooks "string option"
  | getWebhook string
  | createWebhook jsval
  | updateWebhook string jsval
  | deleteWebhook string
  | regenerateWebhookSecret string
  | getWebhookTags
  | getWebhookStats
  | generateReport jsval
  | getReports jsval
  | getReport string
  | getAnalyticsOverview
  | getSeverityStats "int option"
  | getCategoryStats "int option" "int option"
  | getTimelineTrend "int option"

definition default_arg :: "int \<Rightarrow> int option \<Rightarrow> int" where
  "default_arg d a = (case a of None \<Rightarrow> d | Some n \<Rightarrow> n)"

fun request :: "api_call \<Rightarrow> request_config" where
  "request (getDetections ps) = mk_request GET ''/api/detections'' ps JUndefined"
| "request (getDetection ident) = mk_request GET (''/api/detections/'' @ ident) JUndefined JUndefined"
| "request getDetectionStats = mk_request GET ''/api/detections/stats'' JUndefined JUndefined"
| "request (submitDetectionFeedback ident feedback) =
     mk_request POST (''/api/detections/'' @ ident @ ''/feedback'') JUndefined feedback"
| "request (getIncidents ps) = mk_request GET ''/api/detections/incidents'' ps JUndefined"
| "request (updateIncident ident body) =
     mk_request PUT (''/api/detections/incidents/'' @ ident) JUndefined body"
| "request (resolveIncident ident resolution) =
     mk_request POST (''/api/detections/incidents/'' @ ident @ ''/resolve'') JUndefined
       (JObj [(''resolution'', JStr resolution)])"
| "request getRoutingRules = mk_request GET ''/api/routing-rules'' JUndefined JUndefined"
| "request (createRoutingRule rule) = mk_request POST ''/api/routing-rules'' JUndefined rule"
| "request (updateRoutingRule ident rule) =
     mk_request PUT (''/api/routing-rules/'' @ ident) JUndefined rule"
| "request (deleteRoutingRule ident) =
     mk_request DELETE (''/api/routing-rules/'' @ ident) JUndefined JUndefined"
| "request initDefaultRoutingRules =
     mk_request POST ''/api/routing-rules/init-defaults'' JUndefined JUndefined"
| "request (getNotificationLogs ps) = mk_request GET ''/api/notifications/logs'' ps JUndefined"
| "request getNotificationStats = mk_request GET ''/api/notifications/stats'' JUndefined JUndefined"
| "request (getWebhooks tag) =
     mk_request GET ''/api/webhooks''
       (JObj [(''tag'', case tag of None \<Rightarrow> JUndefined | Some t \<Rightarrow> JStr t)]) JUndefined"
| "request (getWebhook ident) = mk_request GET (''/api/webhooks/'' @ ident) JUndefined JUndefined"
| "request (createWebhook webhook) = mk_request POST ''/api/webhooks'' JUndefined webhook"
| "request (updateWebhook ident webhook) =
     mk_request PUT (''/api/webhooks/'' @ ident) JUndefined webhook"
| "request (deleteWebhook ident) =
     mk_request DELETE (''/api/webhooks/'' @ ident) JUndefined JUndefined"
| "request (regenerateWebhookSecret ident) =
     mk_request POST (''/api/webhooks/'' @ ident @ ''/regenerate-secret'') JUndefined JUndefined"
| "request getWebhookTags = mk_request GET ''/api/webhooks/tags/list'' JUndefined JUndefined"
| "request getWebhookStats = mk_request GET ''/api/webhooks/stats/overview'' JUndefined JUndefined"
| "request (generateReport body) =
     mk_request POST ''/api/analytics/reports/generate'' JUndefined body"
| "request (getReports ps) = mk_request GET ''/api/analytics/reports'' ps JUndefined"
| "request (getReport ident) =
     mk_request GET (''/api/analytics/reports/'' @ ident) JUndefined JUndefined"
| "request getAnalyticsOverview = mk_request GET ''/api/analytics/overview'' JUndefined JUndefined"
| "request (getSeverityStats days) =
     mk_request GET ''/api/analytics/stats/severity''
       (JObj [(''days'', JNum (default_arg 7 days))]) JUndefined"
| "request (getCategoryStats days limit) =
     mk_request GET ''/api/analytics/stats/categories''
       (JObj [(''days'', JNum (default_arg 7 days)), (''limit'', JNum (default_arg 10 limit))])
       JUndefined"
| "request (getTimelineTrend days) =
     mk_request GET ''/api/analytics/trends/timeline''
       (JObj [(''days'', JNum (default_arg 30 days))]) JUndefined"

text \<open>
  The request interceptor installed by the constructor. \<open>localStorage\<close> is a map
  from keys to strings; \<open>getItem\<close> returns \<open>null\<close> (\<open>None\<close>) for a key that is not
  stored. The test \<open>if (token)\<close> is JavaScript truthiness on \<open>string | null\<close>: it fails
  for \<open>null\<close> and for the empty string.
\<close>

definition auth_interceptor :: "(string \<rightharpoonup> string) \<Rightarrow> request_config \<Rightarrow> request_config" where
  "auth_interceptor localStorage config =
     (case localStorage ''access_token'' of
        None \<Rightarrow> config
      | Some token \<Rightarrow>
          if token \<noteq> []
          then config\<lparr> headers := (headers config)(''Authorization'' \<mapsto> ''Bearer '' @ token) \<rparr>
          else config)"

text \<open>What leaves the client when a method is called: the method's request, after the interceptor.\<close>

definition send :: "(string \<rightharpoonup> string) \<Rightarrow> api_call \<Rightarrow> request_config" where
  "send localStorage c = auth_interceptor localStorage (request c)"

text \<open>
  The prefixes that the interface description lists as the boundary of the system
  (\<open>/auth/*\<close>, \<open>/incidents\<close>, \<open>/metrics/*\<close>, \<open>/api/detections\<close>, \<open>/api/webhooks\<close>,
  \<open>/api/routing-rules\<close>, \<open>/api/analytics/*\<close>, \<open>/onboarding/*\<close>), and the test that a
  URL starts with one of a list of prefixes.
\<close>

definition listed_prefixes :: "string list" where
  "listed_prefixes =
     [ ''/auth'', ''/incidents'', ''/metrics'', ''/api/detections'', ''/api/webhooks'',
       ''/api/routing-rules'', ''/api/analytics'', ''/onboarding'' ]"

definition under_prefixes :: "string list \<Rightarrow> string \<Rightarrow> bool" where
  "under_prefixes ps u = list_ex (\<lambda>p. prefix p u) ps"

section \<open>Routing: App and ProtectedRoute\<close>

text \<open>
  The authentication context gives a component the current user (\<open>null\<close> when nobody is
  signed in) and the \<open>loading\<close> flag.
\<close>

record User =
  id' :: string
  email :: string
  full_name :: string
  is_verified :: bool
  onboarding_completed :: bool

record AuthContext =
  user :: "User option"
  loading :: bool

text \<open>Nobody is signed in and the initial load has finished.\<close>

definition signed_out :: AuthContext where
  "signed_out = \<lparr> user = None, loading = False \<rparr>"

datatype page =
    LoginPage
  | SignupPage
  | Dashboard
  | Detections
  | WebhooksManagement
  | Analytics

text \<open>
  What a route renders: a page component, the spinner of \<open>ProtectedRoute\<close>, or a
  \<open>Navigate\<close> element with its target, the pathname kept in \<open>state.from\<close> (if any) and
  the \<open>replace\<close> flag.
\<close>

datatype element =
    Page page
  | Spinner
  | Navigate string "string option" bool

definition ProtectedRoute :: "AuthContext \<Rightarrow> string \<Rightarrow> element \<Rightarrow> element" where
  "ProtectedRoute auth pathname children' =
     (if loading auth then Spinner
      else case user auth of
        None \<Rightarrow> Navigate ''/login'' (Some pathname) True
      | Some u \<Rightarrow>
          if \<not> onboarding_completed u \<and> pathname \<noteq> ''/onboarding''
          then Navigate ''/onboarding'' None True
          else children')"

text \<open>
  The route table of \<open>App\<close>, in source order; the source puts the last five routes
  under the comment "Protected routes". The four page components read neither the
  user nor the loading flag, so the element of the matching route is what is rendered,
  whatever the authentication context holds. A path with no route renders nothing.
\<close>

definition routes :: "(string \<times> element) list" where
  "routes =
     [ (''/login'', Page LoginPage),
       (''/signup'', Page SignupPage),
       (''/'', Navigate ''/dashboard'' None True),
       (''/dashboard'', Page Dashboard),
       (''/detections'', Page Detections),
       (''/webhooks'', Page WebhooksManagement),
       (''/analytics'', Page Analytics) ]"

definition App :: "AuthContext \<Rightarrow> string \<Rightarrow> element option" where
  "App auth pathname = map_of routes pathname"

section \<open>Pagination controls (IncidentsPage, Detections)\<close>

text \<open>
  Page numbers and page counts are JavaScript numbers. The page count comes from server
  data by a division (\<open>IncidentsPage\<close>) or straight from a response field
  (\<open>Detections\<close>), so besides the integers the values \<open>Infinity\<close>, \<open>-Infinity\<close> and
  \<open>NaN\<close> are kept. The counts \<open>total\<close>, \<open>page_size\<close> and \<open>total_pages\<close> of a
  response are taken to be integers.
\<close>

datatype jsnum = Num int | Infinity | NegInfinity | NaN










text \<open>
  The state of the controls: the \<open>page\<close> cell and the page count of the current render.
  Both pages start at page 1.
\<close>

record pager =
  page :: jsnum
  totalPages :: jsnum














section \<open>OnboardingWizard\<close>

subsection \<open>Reading server data\<close>

text \<open>
  Response bodies and caught errors are typed \<open>any\<close> in the source. \<open>member v k\<close> is
  the property access \<open>v.k\<close>: it throws a \<open>TypeError\<close> (\<open>None\<close>) on \<open>undefined\<close> and
  \<open>null\<close>, and yields \<open>undefined\<close> for a property that is not there.
  \<open>opt_member v k\<close> is the optional chaining \<open>v?.k\<close>, which yields \<open>undefined\<close>
  instead of throwing. \<open>js_or a b\<close> is \<open>a || b\<close>.
\<close>

fun member :: "jsval \<Rightarrow> string \<Rightarrow> jsval option" where
  "member JUndefined k = None"
| "member JNull k = None"
| "member (JObj ps) k = Some (case map_of ps k of None \<Rightarrow> JUndefined | Some v \<Rightarrow> v)"
| "member _ k = Some JUndefined"

definition opt_member :: "jsval \<Rightarrow> string \<Rightarrow> jsval" where
  "opt_member v k = (case member v k of None \<Rightarrow> JUndefined | Some x \<Rightarrow> x)"

definition js_or :: "jsval \<Rightarrow> jsval \<Rightarrow> jsval" where
  "js_or a b = (if truthy a then a else b)"

text \<open>
  The outcome of an awaited API call: it resolves with the response body \<open>data\<close>, or it
  rejects with an error whose \<open>response\<close> property is carried here (\<open>undefined\<close> for an
  error without a response, such as a network failure). \<open>error_detail\<close> is
  \<open>err.response?.data?.detail\<close>.
\<close>

datatype outcome = Resolved jsval | Rejected jsval

definition error_detail :: "jsval \<Rightarrow> jsval" where
  "error_detail response = opt_member (opt_member response ''data'') ''detail''"

record OnboardingStatus =
  completed :: bool
  current_step :: int
  webhook_configured :: bool
  webhook_test_received :: bool
  notifications_configured :: bool
  discord_verified :: bool
  telegram_verified :: bool

subsection \<open>Component state and its environment\<close>

text \<open>
  The \<open>useState\<close> cells of the component. Cells that only ever receive values typed
  by TypeScript carry that type; \<open>error\<close>, \<open>webhookUrl\<close> and \<open>webhookSecret\<close> receive
  untyped server data and are \<open>jsval\<close>.
\<close>

record wizard =
  currentStep :: int
  loading :: bool
  error :: jsval
  alertId :: string
  webhookUrl :: jsval
  webhookSecret :: jsval
  webhookConfigured :: bool
  testReceived :: bool
  polling :: bool
  discordId :: string
  telegramId :: string
  emailEnabled :: bool
  discordVerified :: bool
  telegramVerified :: bool
  discordLoading :: bool
  telegramLoading :: bool

definition initial_wizard :: wizard where
  "initial_wizard =
     \<lparr> currentStep = 1, loading = False, error = JStr [], alertId = [],
       webhookUrl = JStr [], webhookSecret = JStr [], webhookConfigured = False,
       testReceived = False, polling = False, discordId = [], telegramId = [],
       emailEnabled = True, discordVerified = False, telegramVerified = False,
       discordLoading = False, telegramLoading = False \<rparr>"

text \<open>
  What surrounds the state: whether the component is mounted, the browser's active
  interval timers (handle and period in milliseconds) and the next free handle, the
  cleanup returned by the last run of the polling effect (the handle it clears) with
  the dependency values of that run, the API requests issued so far (method, URL,
  body), the delays of the pending \<open>setTimeout\<close> calls, and the router navigations.
\<close>

type_synonym api_request = "http_method \<times> string \<times> jsval"

record runtime =
  ui :: wizard
  mounted :: bool
  timers :: "(nat \<times> nat) list"
  next_handle :: nat
  cleanup :: "nat option"
  deps :: "int \<times> bool \<times> bool"
  requests :: "api_request list"
  timeouts :: "nat list"
  navigations :: "string list"

definition handles :: "runtime \<Rightarrow> nat list" where
  "handles r = map fst (timers r)"

definition setInterval :: "nat \<Rightarrow> runtime \<Rightarrow> nat \<times> runtime" where
  "setInterval period r =
     (next_handle r,
      r\<lparr> timers := timers r @ [(next_handle r, period)], next_handle := Suc (next_handle r) \<rparr>)"

definition clearInterval :: "nat \<Rightarrow> runtime \<Rightarrow> runtime" where
  "clearInterval h r = r\<lparr> timers := filter (\<lambda>t. fst t \<noteq> h) (timers r) \<rparr>"

subsection \<open>The polling effect (step 2)\<close>

definition poll_guard :: "wizard \<Rightarrow> bool" where
  "poll_guard w = (currentStep w = 2 \<and> webhookConfigured w \<and> \<not> testReceived w)"

text \<open>
  The body of the effect: under the guard it sets \<open>polling\<close>, starts an interval of
  3000 ms and returns the cleanup that clears this interval; otherwise it does nothing
  and returns no cleanup.
\<close>

definition pollEffect :: "runtime \<Rightarrow> runtime" where
  "pollEffect r =
     (if poll_guard (ui r)
      then (case setInterval 3000 (r\<lparr> ui := (ui r)\<lparr> polling := True \<rparr> \<rparr>) of
              (interval, r') \<Rightarrow> r'\<lparr> cleanup := Some interval \<rparr>)
      else r\<lparr> cleanup := None \<rparr>)"

text \<open>
  The callback of the interval. A tick of an active interval issues
  \<open>GET /onboarding/test-status\<close>; a cleared interval does not tick. When the response
  arrives, a truthy \<open>data.received\<close> sets the three cells and clears the interval the
  callback belongs to; a falsy one changes nothing; a rejected call, or a body on which
  \<open>data.received\<close> throws, is logged and changes nothing.
\<close>

definition poll_request :: api_request where
  "poll_request = (GET, ''/onboarding/test-status'', JUndefined)"

definition poll_tick :: "nat \<Rightarrow> runtime \<Rightarrow> runtime" where
  "poll_tick interval r =
     (if interval \<in> set (handles r)
      then r\<lparr> requests := requests r @ [poll_request] \<rparr>
      else r)"

definition poll_done :: "nat \<Rightarrow> outcome \<Rightarrow> runtime \<Rightarrow> runtime" where
  "poll_done interval resp r =
     (case resp of
        Rejected _ \<Rightarrow> r
      | Resolved d \<Rightarrow>
          (case member d ''received'' of
             None \<Rightarrow> r
           | Some received \<Rightarrow>
               if truthy received
               then clearInterval interval
                      (r\<lparr> ui := (ui r)\<lparr> testReceived := True, polling := False, currentStep := 3 \<rparr> \<rparr>)
               else r))"

text \<open>
  React's handling of the effect with dependencies
  \<open>[currentStep, webhookConfigured, testReceived]\<close>: after a render in which a
  dependency differs from its value at the last run, the previous cleanup runs and then
  the effect body; on unmount the last cleanup runs.
\<close>

definition current_deps :: "wizard \<Rightarrow> int \<times> bool \<times> bool" where
  "current_deps w = (currentStep w, webhookConfigured w, testReceived w)"

definition run_cleanup :: "runtime \<Rightarrow> runtime" where
  "run_cleanup r =
     (case cleanup r of
        None \<Rightarrow> r
      | Some interval \<Rightarrow> (clearInterval interval r)\<lparr> cleanup := None \<rparr>)"

definition commit :: "runtime \<Rightarrow> runtime" where
  "commit r =
     (if current_deps (ui r) = deps r then r
      else pollEffect ((run_cleanup r)\<lparr> deps := current_deps (ui r) \<rparr>))"

definition unmount :: "runtime \<Rightarrow> runtime" where
  "unmount r = (run_cleanup r)\<lparr> mounted := False \<rparr>"

text \<open>
  The first render: both effects run, \<open>loadStatus()\<close> first (it issues
  \<open>GET /onboarding/status\<close>), then the polling effect on the initial state.
\<close>

definition mount :: runtime where
  "mount =
     pollEffect
       \<lparr> ui = initial_wizard, mounted = True, timers = [], next_handle = 0, cleanup = None,
         deps = current_deps initial_wizard,
         requests = [(GET, ''/onboarding/status'', JUndefined)],
         timeouts = [], navigations = [] \<rparr>"

subsection \<open>Handlers\<close>

text \<open>
  Every asynchronous handler is split at its \<open>await\<close>: the first part runs when the
  handler is called and issues the request, the part named \<open>_done\<close> runs when the call
  has settled. \<open>loadStatus\<close> is called by the mount effect; its typed response is an
  \<open>OnboardingStatus\<close>, and \<open>None\<close> stands for a rejected call (logged only).
\<close>

definition loadStatus_done :: "OnboardingStatus option \<Rightarrow> runtime \<Rightarrow> runtime" where
  "loadStatus_done resp r =
     (case resp of
        None \<Rightarrow> r
      | Some d \<Rightarrow>
          if completed d then r\<lparr> navigations := navigations r @ [''/dashboard''] \<rparr>
          else r\<lparr> ui := (ui r)
                 \<lparr> currentStep :=
                     (if webhook_configured d \<and> current_step d = 1 then 2 else current_step d),
                   webhookConfigured := webhook_configured d,
                   testReceived := webhook_test_received d,
                   discordVerified := discord_verified d,
                   telegramVerified := telegram_verified d \<rparr> \<rparr>)"

definition handleCreateWebhook :: "runtime \<Rightarrow> runtime" where
  "handleCreateWebhook r =
     r\<lparr> ui := (ui r)\<lparr> error := JStr [], loading := True \<rparr>,
        requests := requests r @
          [(POST, ''/onboarding/webhook'',
            JObj [(''alert_id'', JStr (alertId (ui r))),
                  (''description'', JStr ''Onboarding webhook'')])] \<rparr>"

text \<open>
  After the \<open>await\<close>: the \<open>try\<close> block reads \<open>data.webhook_url\<close> and
  \<open>data.webhook_secret\<close> (a \<open>TypeError\<close> on a \<open>null\<close> body is caught like a rejected
  call, with no \<open>response\<close>), the \<open>catch\<close> block sets the message, and \<open>finally\<close>
  resets \<open>loading\<close>.
\<close>

definition handleCreateWebhook_done :: "outcome \<Rightarrow> runtime \<Rightarrow> runtime" where
  "handleCreateWebhook_done resp r =
     (let caught = (\<lambda>response.
            r\<lparr> ui := (ui r)
               \<lparr> error := js_or (error_detail response) (JStr ''Failed to create webhook''),
                 loading := False \<rparr> \<rparr>)
      in case resp of
        Rejected response \<Rightarrow> caught response
      | Resolved d \<Rightarrow>
          (case (member d ''webhook_url'', member d ''webhook_secret'') of
             (Some u, Some s) \<Rightarrow>
               r\<lparr> ui := (ui r)
                  \<lparr> webhookUrl := u, webhookSecret := s, webhookConfigured := True,
                    currentStep := 2, loading := False \<rparr> \<rparr>
           | _ \<Rightarrow> caught JUndefined))"

definition handleVerifyDiscord :: "runtime \<Rightarrow> runtime" where
  "handleVerifyDiscord r =
     r\<lparr> ui := (ui r)\<lparr> error := JStr [], discordLoading := True \<rparr>,
        requests := requests r @
          [(POST, ''/onboarding/verify-discord'',
            JObj [(''discord_user_id'', JStr (discordId (ui r)))])] \<rparr>"

definition handleVerifyDiscord_done :: "outcome \<Rightarrow> runtime \<Rightarrow> runtime" where
  "handleVerifyDiscord_done resp r =
     (let caught = (\<lambda>response.
            r\<lparr> ui := (ui r)
               \<lparr> error := js_or (error_detail response) (JStr ''Failed to verify Discord''),
                 discordLoading := False \<rparr> \<rparr>)
      in case resp of
        Rejected response \<Rightarrow> caught response
      | Resolved d \<Rightarrow>
          (case member d ''success'' of
             None \<Rightarrow> caught JUndefined
           | Some success \<Rightarrow>
               if truthy success
               then r\<lparr> ui := (ui r)\<lparr> discordVerified := True, discordLoading := False \<rparr> \<rparr>
               else r\<lparr> ui := (ui r)
                       \<lparr> error := js_or (opt_member d ''error'') (JStr ''Discord verification failed''),
                         discordLoading := False \<rparr> \<rparr>))"

definition handleVerifyTelegram :: "runtime \<Rightarrow> runtime" where
  "handleVerifyTelegram r =
     r\<lparr> ui := (ui r)\<lparr> error := JStr [], telegramLoading := True \<rparr>,
        requests := requests r @
          [(POST, ''/onboarding/verify-telegram'',
            JObj [(''telegram_chat_id'', JStr (telegramId (ui r)))])] \<rparr>"

definition handleVerifyTelegram_done :: "outcome \<Rightarrow> runtime \<Rightarrow> runtime" where
  "handleVerifyTelegram_done resp r =
     (let caught = (\<lambda>response.
            r\<lparr> ui := (ui r)
               \<lparr> error := js_or (error_detail response) (JStr ''Failed to verify Telegram''),
                 telegramLoading := False \<rparr> \<rparr>)
      in case resp of
        Rejected response \<Rightarrow> caught response
      | Resolved d \<Rightarrow>
          (case member d ''success'' of
             None \<Rightarrow> caught JUndefined
           | Some success \<Rightarrow>
               if truthy success
               then r\<lparr> ui := (ui r)\<lparr> telegramVerified := True, telegramLoading := False \<rparr> \<rparr>
               else r\<lparr> ui := (ui r)
                       \<lparr> error := js_or (opt_member d ''error'') (JStr ''Telegram verification failed''),
                         telegramLoading := False \<rparr> \<rparr>))"

text \<open>
  \<open>handleComplete\<close> returns early, with a message and no request, unless a channel is
  verified. After a successful call it schedules the navigation to the dashboard in
  2000 ms and leaves \<open>loading\<close> set.
\<close>

definition verify_channel_message :: string where
  "verify_channel_message =
     ''Please verify at least one notification channel (Discord or Telegram)''"

definition complete_request :: "wizard \<Rightarrow> api_request" where
  "complete_request w =
     (POST, ''/onboarding/complete'',
      JObj [(''email_notifications_enabled'', JBool (emailEnabled w))])"

definition handleComplete :: "runtime \<Rightarrow> runtime" where
  "handleComplete r =
     (if \<not> discordVerified (ui r) \<and> \<not> telegramVerified (ui r)
      then r\<lparr> ui := (ui r)\<lparr> error := JStr verify_channel_message \<rparr> \<rparr>
      else r\<lparr> ui := (ui r)\<lparr> error := JStr [], loading := True \<rparr>,
              requests := requests r @ [complete_request (ui r)] \<rparr>)"

definition handleComplete_done :: "outcome \<Rightarrow> runtime \<Rightarrow> runtime" where
  "handleComplete_done resp r =
     (case resp of
        Resolved _ \<Rightarrow> r\<lparr> timeouts := timeouts r @ [2000] \<rparr>
      | Rejected response \<Rightarrow>
          r\<lparr> ui := (ui r)
             \<lparr> error := js_or (error_detail response) (JStr ''Failed to complete onboarding''),
               loading := False \<rparr> \<rparr>)"

definition timeout_fired :: "runtime \<Rightarrow> runtime" where
  "timeout_fired r =
     (case timeouts r of
        [] \<Rightarrow> r
      | _ # ts \<Rightarrow> r\<lparr> timeouts := ts, navigations := navigations r @ [''/dashboard''] \<rparr>)"

subsection \<open>The error banner\<close>




subsection \<open>Events\<close>

text \<open>
  Everything that can happen to the component: React commits a render or unmounts it,
  a timer fires, an API call settles, or the user acts on a control. A control can be
  used only while the component is mounted, its panel is rendered and it is not
  disabled.
\<close>

datatype event =
    Commit
  | Unmount
  | LoadStatusDone "OnboardingStatus option"
  | ChangeAlertId string
  | SubmitWebhook
  | CreateWebhookDone outcome
  | ClickNextTestWebhook
  | Tick nat
  | TestStatusDone nat outcome
  | ClickContinueToNotifications
  | ChangeDiscordId string
  | ClickVerifyDiscord
  | VerifyDiscordDone outcome
  | ChangeTelegramId string
  | ClickVerifyTelegram
  | VerifyTelegramDone outcome
  | ChangeEmailEnabled bool
  | ClickComplete
  | CompleteDone outcome
  | TimeoutFired

definition complete_disabled :: "wizard \<Rightarrow> bool" where
  "complete_disabled w = (loading w \<or> (\<not> discordVerified w \<and> \<not> telegramVerified w))"

fun handle :: "event \<Rightarrow> runtime \<Rightarrow> runtime" where
  "handle Commit r = (if mounted r then commit r else r)"
| "handle Unmount r = (if mounted r then unmount r else r)"
| "handle (LoadStatusDone resp) r = loadStatus_done resp r"
| "handle (ChangeAlertId v) r =
     (if mounted r \<and> currentStep (ui r) = 1 \<and> \<not> webhookConfigured (ui r)
      then r\<lparr> ui := (ui r)\<lparr> alertId := v \<rparr> \<rparr> else r)"
| "handle SubmitWebhook r =
     (if mounted r \<and> currentStep (ui r) = 1 \<and> \<not> webhookConfigured (ui r)
           \<and> \<not> (loading (ui r) \<or> alertId (ui r) = [])
      then handleCreateWebhook r else r)"
| "handle (CreateWebhookDone resp) r = handleCreateWebhook_done resp r"
| "handle ClickNextTestWebhook r =
     (if mounted r \<and> currentStep (ui r) = 1 \<and> webhookConfigured (ui r)
      then r\<lparr> ui := (ui r)\<lparr> currentStep := 2 \<rparr> \<rparr> else r)"
| "handle (Tick interval) r = poll_tick interval r"
| "handle (TestStatusDone interval resp) r = poll_done interval resp r"
| "handle ClickContinueToNotifications r =
     (if mounted r \<and> currentStep (ui r) = 2 \<and> testReceived (ui r)
      then r\<lparr> ui := (ui r)\<lparr> currentStep := 3 \<rparr> \<rparr> else r)"
| "handle (ChangeDiscordId v) r =
     (if mounted r \<and> currentStep (ui r) = 3 \<and> \<not> discordVerified (ui r)
      then r\<lparr> ui := (ui r)\<lparr> discordId := v \<rparr> \<rparr> else r)"
| "handle ClickVerifyDiscord r =
     (if mounted r \<and> currentStep (ui r) = 3
           \<and> \<not> (discordId (ui r) = [] \<or> discordVerified (ui r) \<or> discordLoading (ui r))
      then handleVerifyDiscord r else r)"
| "handle (VerifyDiscordDone resp) r = handleVerifyDiscord_done resp r"
| "handle (ChangeTelegramId v) r =
     (if mounted r \<and> currentStep (ui r) = 3 \<and> \<not> telegramVerified (ui r)
      then r\<lparr> ui := (ui r)\<lparr> telegramId := v \<rparr> \<rparr> else r)"
| "handle ClickVerifyTelegram r =
     (if mounted r \<and> currentStep (ui r) = 3
           \<and> \<not> (telegramId (ui r) = [] \<or> telegramVerified (ui r) \<or> telegramLoading (ui r))
      then handleVerifyTelegram r else r)"
| "handle (VerifyTelegramDone resp) r = handleVerifyTelegram_done resp r"
| "handle (ChangeEmailEnabled v) r =
     (if mounted r \<and> currentStep (ui r) = 3
      then r\<lparr> ui := (ui r)\<lparr> emailEnabled := v \<rparr> \<rparr> else r)"
| "handle ClickComplete r =
     (if mounted r \<and> currentStep (ui r) = 3 \<and> \<not> complete_disabled (ui r)
      then handleComplete r else r)"
| "handle (CompleteDone resp) r = handleComplete_done resp r"
| "handle TimeoutFired r = timeout_fired r"

text \<open>
  One step: the event is handled; state updates requested on an unmounted component are
  dropped by React, while the other effects of the handler (timers, requests,
  navigation) still happen.
\<close>

definition step :: "runtime \<Rightarrow> event \<Rightarrow> runtime" where
  "step r e = (if mounted r then handle e r else (handle e r)\<lparr> ui := ui r \<rparr>)"

definition run :: "runtime \<Rightarrow> event list \<Rightarrow> runtime" where
  "run r es = foldl step r es"

text \<open>
  The polling requests among the requests issued, and the events that can put the test
  flag back to false: only a \<open>loadStatus\<close> response of an onboarding that is neither
  completed nor tested does.
\<close>

definition poll_requests :: "runtime \<Rightarrow> api_request list" where
  "poll_requests r = filter (\<lambda>q. q = poll_request) (requests r)"


subsection \<open>Invariants and example runs\<close>

text \<open>
  The invariant of the timers: every active interval is the one the registered cleanup
  clears, a registered cleanup belongs to a run of the effect under its guard (the
  dependency values of that run say so) and its handle has been handed out, and an
  unmounted component has neither timers nor a cleanup.
\<close>

definition timer_inv :: "runtime \<Rightarrow> bool" where
  "timer_inv r =
     ((\<forall>h \<in> set (handles r). cleanup r = Some h) \<and>
      (\<forall>h. cleanup r = Some h \<longrightarrow> h < next_handle r \<and> deps r = (2, True, False)) \<and>
      (\<not> mounted r \<longrightarrow> timers r = [] \<and> cleanup r = None))"


text \<open>
  A run of the wizard: the user enters an alert id and submits, the webhook is created,
  and React commits the render, which starts the polling. \<open>late_status\<close> is a status
  response that arrives after that and reports the test as received.
\<close>

definition created_body :: jsval where
  "created_body =
     JObj [ (''webhook_url'', JStr ''https://radar.example/hook/1''),
            (''webhook_secret'', JStr ''s3cret'') ]"


definition example_trace :: "event list" where
  "example_trace =
     [ ChangeAlertId ''alert-1'', SubmitWebhook, CreateWebhookDone (Resolved created_body), Commit ]"

definition late_status :: OnboardingStatus where
  "late_status =
     \<lparr> completed = False, current_step = 3, webhook_configured = True,
       webhook_test_received = True, notifications_configured = False,
       discord_verified = False, telegram_verified = False \<rparr>"








section \<open>Properties of the type declarations and of StatusBadge\<close>

lemma Incident_status_of:
  assumes "conforms incident Incident" and "getprop incident ''status'' = Some v"
  shows "\<exists>s. v = JStr s \<and> s \<in> set Incident_status"
  using assms by (cases v) (simp_all add: conforms_def Incident_def)

lemma dom_statusClasses:
  "dom (map_of statusClasses) = {''open'', ''acknowledged'', ''resolved''}"
  by (auto simp add: statusClasses_def dom_map_of_conv_image_fst)

text \<open>
  Claim C3. The claim says that a \<open>protocol\<close> field is part of every value of the
  exported \<open>Incident\<close> type. The declaration has no such property: \<open>incident_example\<close> is
  a value of the type without it, and \<open>IncidentCard\<close>, which reads \<open>incident.protocol\<close>,
  renders no protocol row for it.
\<close>

theorem Incident_declares_no_protocol:
  "\<not> declares Incident ''protocol'' \<and>
   conforms incident_example Incident \<and>
   getprop incident_example ''protocol'' = None \<and>
   IncidentCard_protocol_row incident_example = None"
  by (simp add: declares_def conforms_def Incident_def Incident_status_def incident_example_def
        IncidentCard_protocol_row_def)

text \<open>
  Claim C8. The class table of \<open>StatusBadge\<close> has exactly the keys \<open>open\<close>,
  \<open>acknowledged\<close> and \<open>resolved\<close>. For an incident of the exported type whose status is
  none of these, the status is \<open>investigating\<close> or \<open>closed\<close>, the lookup yields
  \<open>undefined\<close>, and the badge carries the base classes and the caller's class only.
\<close>

theorem StatusBadge_unstyled_statuses:
  "dom (map_of statusClasses) = {''open'', ''acknowledged'', ''resolved''} \<and>
   (conforms incident Incident \<and> getprop incident ''status'' = Some (JStr status) \<and>
    status \<notin> {''open'', ''acknowledged'', ''resolved''} \<longrightarrow>
      (status = ''investigating'' \<or> status = ''closed'') \<and>
      map_of statusClasses status = None \<and>
      StatusBadge status cn =
        \<lparr> className = clsx [Some baseClasses, cn], children = toUpperCase status \<rparr>)"
proof (intro conjI impI)
  show "dom (map_of statusClasses) = {''open'', ''acknowledged'', ''resolved''}"
    by (rule dom_statusClasses)
next
  assume a: "conforms incident Incident \<and> getprop incident ''status'' = Some (JStr status) \<and>
    status \<notin> {''open'', ''acknowledged'', ''resolved''}"
  then have "status \<in> set Incident_status"
    using Incident_status_of by blast
  with a show "status = ''investigating'' \<or> status = ''closed''"
    by (auto simp: Incident_status_def)
  then show none: "map_of statusClasses status = None"
    by (auto simp: statusClasses_def)
  then show "StatusBadge status cn =
      \<lparr> className = clsx [Some baseClasses, cn], children = toUpperCase status \<rparr>"
    by (simp add: StatusBadge_def)
qed

theorem StatusBadge_unstyled_statuses_witness:
  "conforms incident_example Incident \<and>
   getprop incident_example ''status'' = Some (JStr ''investigating'') \<and>
   ''investigating'' \<notin> {''open'', ''acknowledged'', ''resolved''} \<and>
   map_of statusClasses ''investigating'' = None \<and>
   StatusBadge ''investigating'' None =
     \<lparr> className = baseClasses, children = ''INVESTIGATING'' \<rparr>"
proof -
  have c: "conforms incident_example Incident"
    by (simp add: conforms_def Incident_def Incident_status_def incident_example_def)
  have g: "getprop incident_example ''status'' = Some (JStr ''investigating'')"
    by (simp add: incident_example_def)
  have u: "toUpperCase ''investigating'' = ''INVESTIGATING''"
    by (simp add: toUpperCase_def toUpperCase_char_def)
  from StatusBadge_unstyled_statuses[of incident_example "''investigating''" None] c g u
  show ?thesis by (simp add: baseClasses_def)
qed

section \<open>Properties of ApiClient\<close>

lemma request_no_Authorization: "headers (request c) ''Authorization'' = None"
  by (cases c) (simp_all add: mk_request_def default_headers_def)

text \<open>
  Claim C2, as stated, fails: the URL of \<open>getNotificationLogs\<close> is
  \<open>/api/notifications/logs\<close>, which starts with none of the listed prefixes.
\<close>

theorem getNotificationLogs_outside_listed_prefixes:
  "\<not> under_prefixes listed_prefixes (url (request (getNotificationLogs JUndefined)))"
  by (simp add: under_prefixes_def mk_request_def listed_prefixes_def)

text \<open>
  Claim C2, amended. The URL of the request of every method of \<open>ApiClient\<close> starts with
  one of the listed prefixes or with \<open>/api/notifications\<close>.
\<close>

theorem ApiClient_urls_under_prefixes:
  "under_prefixes (listed_prefixes @ [''/api/notifications'']) (url (request c))"
  by (cases c) (simp_all add: under_prefixes_def mk_request_def listed_prefixes_def)

theorem ApiClient_urls_under_prefixes_witness:
  "url (request (getWebhook ''42'')) = ''/api/webhooks/42'' \<and>
   under_prefixes (listed_prefixes @ [''/api/notifications'']) ''/api/webhooks/42''"
  using ApiClient_urls_under_prefixes[of "getWebhook ''42''"]
  by (simp add: mk_request_def)

text \<open>
  Claim C5, as stated, fails: with the empty string stored under \<open>access_token\<close>, the
  storage holds a token \<open>t\<close>, yet the request carries no header \<open>Bearer t\<close>.
\<close>

theorem empty_token_no_Authorization_header:
  "[''access_token'' \<mapsto> []] ''access_token'' = Some [] \<and>
   headers (send [''access_token'' \<mapsto> []] getDetectionStats) ''Authorization''
     \<noteq> Some (''Bearer '' @ [])"
  by (simp add: send_def auth_interceptor_def mk_request_def default_headers_def)

text \<open>
  Claim C5, amended. A request sent by a method of the client carries
  \<open>Authorization = "Bearer " + t\<close> exactly when \<open>localStorage\<close> holds a non-empty \<open>t\<close>
  under \<open>access_token\<close>; when no token or the empty string is stored, the request is sent
  as the method built it, with no \<open>Authorization\<close> header. The interceptor changes
  nothing else.
\<close>

theorem auth_interceptor_bearer_header:
  "(headers (send localStorage c) ''Authorization'' = Some (''Bearer '' @ t)
      \<longleftrightarrow> localStorage ''access_token'' = Some t \<and> t \<noteq> []) \<and>
   (localStorage ''access_token'' = None \<or> localStorage ''access_token'' = Some [] \<longrightarrow>
      headers (send localStorage c) ''Authorization'' = None \<and>
      send localStorage c = request c) \<and>
   (k \<noteq> ''Authorization'' \<longrightarrow> headers (send localStorage c) k = headers (request c) k) \<and>
   req_method (send localStorage c) = req_method (request c) \<and>
   url (send localStorage c) = url (request c) \<and>
   params (send localStorage c) = params (request c) \<and>
   data (send localStorage c) = data (request c)"
  by (auto simp: send_def auth_interceptor_def request_no_Authorization split: option.splits)

theorem auth_interceptor_bearer_header_witness:
  "[''access_token'' \<mapsto> ''abc''] ''access_token'' = Some ''abc'' \<and> ''abc'' \<noteq> [] \<and>
   headers (send [''access_token'' \<mapsto> ''abc''] getDetectionStats) ''Authorization''
     = Some ''Bearer abc'' \<and>
   (Map.empty :: string \<rightharpoonup> string) ''access_token'' = None \<and>
   headers (send Map.empty getDetectionStats) ''Authorization'' = None \<and>
   ''Content-Type'' \<noteq> ''Authorization'' \<and>
   headers (send [''access_token'' \<mapsto> ''abc''] getDetectionStats) ''Content-Type''
     = Some ''application/json''"
  using auth_interceptor_bearer_header[of "[''access_token'' \<mapsto> ''abc'']" getDetectionStats
          "''abc''" "''Content-Type''"]
        auth_interceptor_bearer_header[of Map.empty getDetectionStats "''abc''" "''Content-Type''"]
  by (simp add: mk_request_def default_headers_def)

section \<open>Properties of the routing\<close>

text \<open>
  Claim C1. The claim says that a protected route rendered with no user redirects to
  \<open>/login\<close>. With nobody signed in and loading finished, \<open>App\<close> renders the page
  component of each of the four routes; the redirect is what \<open>ProtectedRoute\<close> would
  render there, and \<open>App\<close> does not use it.
\<close>

theorem App_renders_protected_pages_signed_out:
  "user signed_out = None \<and> \<not> AuthContext.loading signed_out \<and>
   App signed_out ''/dashboard'' = Some (Page Dashboard) \<and>
   App signed_out ''/detections'' = Some (Page Detections) \<and>
   App signed_out ''/webhooks'' = Some (Page WebhooksManagement) \<and>
   App signed_out ''/analytics'' = Some (Page Analytics) \<and>
   ProtectedRoute signed_out ''/dashboard'' (Page Dashboard)
     = Navigate ''/login'' (Some ''/dashboard'') True"
  by (simp add: App_def routes_def ProtectedRoute_def signed_out_def)

section \<open>Properties of the pagination controls\<close>









section \<open>Properties of the onboarding wizard\<close>

subsection \<open>The timer invariant\<close>

lemma timer_inv_mount: "timer_inv mount"
  by (simp add: timer_inv_def mount_def pollEffect_def poll_guard_def initial_wizard_def
        handles_def)

lemma run_cleanup_timers:
  assumes "timer_inv r"
  shows "timers (run_cleanup r) = []"
proof (cases "cleanup r")
  case None
  with assms have "set (handles r) = {}"
    by (auto simp: timer_inv_def)
  then have "timers r = []"
    by (simp add: handles_def)
  with None show ?thesis
    by (simp add: run_cleanup_def)
next
  case (Some c)
  with assms have "\<forall>t \<in> set (timers r). fst t = c"
    by (auto simp: timer_inv_def handles_def)
  then have "filter (\<lambda>t. fst t \<noteq> c) (timers r) = []"
    by (simp add: filter_empty_conv)
  with Some show ?thesis
    by (simp add: run_cleanup_def clearInterval_def)
qed

lemma run_cleanup_fields:
  "cleanup (run_cleanup r) = None"
  "next_handle (run_cleanup r) = next_handle r"
  "mounted (run_cleanup r) = mounted r"
  "ui (run_cleanup r) = ui r"
  by (auto simp: run_cleanup_def clearInterval_def split: option.splits)

lemma timer_inv_commit:
  assumes "timer_inv r" and "mounted r"
  shows "timer_inv (commit r)"
proof (cases "current_deps (ui r) = deps r")
  case True
  with assms show ?thesis
    by (simp add: commit_def)
next
  case False
  from run_cleanup_timers[OF assms(1)] False assms(2) show ?thesis
    by (auto simp: commit_def timer_inv_def pollEffect_def poll_guard_def setInterval_def
          handles_def run_cleanup_fields current_deps_def)
qed

lemma timer_inv_unmount:
  assumes "timer_inv r"
  shows "timer_inv (unmount r)"
  using run_cleanup_timers[OF assms]
  by (simp add: timer_inv_def unmount_def handles_def run_cleanup_fields)

lemma timer_inv_clearInterval: "timer_inv r \<Longrightarrow> timer_inv (clearInterval h r)"
  by (auto simp: timer_inv_def clearInterval_def handles_def)

lemma timer_inv_ui: "timer_inv (r\<lparr> ui := w \<rparr>) = timer_inv r"
  by (simp add: timer_inv_def handles_def)

lemma timer_inv_poll_done: "timer_inv r \<Longrightarrow> timer_inv (poll_done h resp r)"
  by (auto simp: poll_done_def timer_inv_clearInterval timer_inv_ui
        split: outcome.splits option.splits)

lemma timer_inv_handle:
  assumes "timer_inv r"
  shows "timer_inv (handle e r)"
proof (cases e)
  case Commit
  with assms show ?thesis by (simp add: timer_inv_commit)
next
  case Unmount
  with assms show ?thesis by (simp add: timer_inv_unmount)
next
  case (TestStatusDone h resp)
  with assms show ?thesis by (simp add: timer_inv_poll_done)
qed (use assms in \<open>auto simp: timer_inv_def handles_def loadStatus_done_def
      handleCreateWebhook_def handleCreateWebhook_done_def poll_tick_def
      handleVerifyDiscord_def handleVerifyDiscord_done_def handleVerifyTelegram_def
      handleVerifyTelegram_done_def handleComplete_def handleComplete_done_def
      timeout_fired_def Let_def
      split: option.splits outcome.splits list.splits\<close>)

lemma timer_inv_step: "timer_inv r \<Longrightarrow> timer_inv (step r e)"
  by (simp add: step_def timer_inv_handle timer_inv_ui)

lemma timer_inv_run: "timer_inv r \<Longrightarrow> timer_inv (run r es)"
  unfolding run_def by (induction es arbitrary: r) (simp_all add: timer_inv_step)

lemma timer_inv_reachable: "timer_inv (run mount es)"
  by (simp add: timer_inv_run timer_inv_mount)

lemma unmounted_handle: "\<not> mounted r \<Longrightarrow> \<not> mounted (handle e r)"
  by (cases e)
     (auto simp: loadStatus_done_def handleCreateWebhook_done_def poll_tick_def poll_done_def
        clearInterval_def handleVerifyDiscord_done_def handleVerifyTelegram_done_def
        handleComplete_done_def timeout_fired_def Let_def
        split: option.splits outcome.splits list.splits)

lemma unmounted_step: "\<not> mounted r \<Longrightarrow> \<not> mounted (step r e)"
  by (simp add: step_def unmounted_handle)

lemma unmounted_run: "\<not> mounted r \<Longrightarrow> \<not> mounted (run r es)"
  unfolding run_def by (induction es arbitrary: r) (simp_all add: unmounted_step)

lemma unmounted_after_Unmount: "\<not> mounted (step r Unmount)"
  by (simp add: step_def unmount_def)

lemma commit_clears_old_timers:
  assumes inv: "timer_inv r" and ch: "current_deps (ui r) \<noteq> deps r"
    and h: "h \<in> set (handles r)"
  shows "h \<notin> set (handles (commit r))"
proof -
  from inv h have "h < next_handle r"
    by (simp add: timer_inv_def)
  moreover have "set (handles (commit r)) \<subseteq> {next_handle r}"
    using ch run_cleanup_timers[OF inv]
    by (simp add: commit_def pollEffect_def setInterval_def handles_def run_cleanup_fields)
  ultimately show ?thesis by auto
qed



subsection \<open>After the flag is set\<close>





subsection \<open>The example run\<close>

lemmas wizard_defs =
  run_def step_def mount_def initial_wizard_def pollEffect_def poll_guard_def setInterval_def
  clearInterval_def current_deps_def run_cleanup_def commit_def unmount_def handles_def
  loadStatus_done_def handleCreateWebhook_def handleCreateWebhook_done_def poll_tick_def
  poll_done_def poll_request_def poll_requests_def created_body_def

lemma example_state:
  "run mount example_trace =
     \<lparr> ui = initial_wizard
          \<lparr> currentStep := 2, alertId := ''alert-1'',
            webhookUrl := JStr ''https://radar.example/hook/1'',
            webhookSecret := JStr ''s3cret'', webhookConfigured := True, polling := True \<rparr>,
       mounted = True, timers = [(0, 3000)], next_handle = 1, cleanup = Some 0,
       deps = (2, True, False),
       requests = [(GET, ''/onboarding/status'', JUndefined),
                   (POST, ''/onboarding/webhook'',
                    JObj [(''alert_id'', JStr ''alert-1''),
                          (''description'', JStr ''Onboarding webhook'')])],
       timeouts = [], navigations = [] \<rparr>"
  by (simp add: example_trace_def wizard_defs)

lemma mount_ui: "ui mount = initial_wizard" "mounted mount"
  by (simp_all add: mount_def pollEffect_def poll_guard_def initial_wizard_def)

subsection \<open>Polling for the test webhook\<close>




subsection \<open>Teardown of the polling interval\<close>

text \<open>
  Claim C6. In every state the wizard can reach, each active interval is the one that
  the cleanup of the polling effect clears. After the component unmounts, no interval
  is active, whatever happens later; and when React commits a render in which a
  dependency of the effect has changed, none of the intervals that were active before
  is active afterwards.
\<close>

theorem polling_interval_teardown:
  "(\<forall>h \<in> set (handles (run mount es)). cleanup (run mount es) = Some h) \<and>
   timers (run (step (run mount es) Unmount) es') = [] \<and>
   (mounted (run mount es) \<and> current_deps (ui (run mount es)) \<noteq> deps (run mount es) \<longrightarrow>
      (\<forall>h \<in> set (handles (run mount es)). h \<notin> set (handles (step (run mount es) Commit))))"
proof -
  let ?r = "run mount es"
  have inv: "timer_inv ?r"
    by (rule timer_inv_reachable)
  then have a: "\<forall>h \<in> set (handles ?r). cleanup ?r = Some h"
    by (simp add: timer_inv_def)
  have "timer_inv (run (step ?r Unmount) es')"
    by (simp add: timer_inv_run timer_inv_step inv)
  moreover have "\<not> mounted (run (step ?r Unmount) es')"
    by (simp add: unmounted_run unmounted_after_Unmount)
  ultimately have b: "timers (run (step ?r Unmount) es') = []"
    by (simp add: timer_inv_def)
  have c: "mounted ?r \<and> current_deps (ui ?r) \<noteq> deps ?r \<longrightarrow>
      (\<forall>h \<in> set (handles ?r). h \<notin> set (handles (step ?r Commit)))"
    using commit_clears_old_timers[OF inv] by (simp add: step_def)
  from a b c show ?thesis by blast
qed

theorem polling_interval_teardown_witness:
  "handles (run mount (example_trace @ [LoadStatusDone (Some late_status)])) = [0] \<and>
   cleanup (run mount (example_trace @ [LoadStatusDone (Some late_status)])) = Some 0 \<and>
   timers (run (step (run mount (example_trace @ [LoadStatusDone (Some late_status)])) Unmount)
             [Tick 0, Commit]) = [] \<and>
   mounted (run mount (example_trace @ [LoadStatusDone (Some late_status)])) \<and>
   current_deps (ui (run mount (example_trace @ [LoadStatusDone (Some late_status)])))
     \<noteq> deps (run mount (example_trace @ [LoadStatusDone (Some late_status)])) \<and>
   0 \<notin> set (handles (step (run mount (example_trace @ [LoadStatusDone (Some late_status)])) Commit))"
proof -
  have st: "run mount (example_trace @ [LoadStatusDone (Some late_status)]) =
              step (run mount example_trace) (LoadStatusDone (Some late_status))"
    by (simp add: run_def)
  have a: "handles (step (run mount example_trace) (LoadStatusDone (Some late_status))) = [0]"
    and b: "cleanup (step (run mount example_trace) (LoadStatusDone (Some late_status))) = Some 0"
    and c: "mounted (step (run mount example_trace) (LoadStatusDone (Some late_status)))"
    and d: "current_deps (ui (step (run mount example_trace) (LoadStatusDone (Some late_status))))
              \<noteq> deps (step (run mount example_trace) (LoadStatusDone (Some late_status)))"
    unfolding example_state
    by (simp_all add: step_def loadStatus_done_def late_status_def handles_def current_deps_def
          initial_wizard_def)
  from polling_interval_teardown[of "example_trace @ [LoadStatusDone (Some late_status)]"
         "[Tick 0, Commit]"]
  show ?thesis unfolding st using a b c d by simp
qed

subsection \<open>Creating the webhook\<close>




subsection \<open>Completing the onboarding\<close>

text \<open>
  Claim C10. When neither Discord nor Telegram is verified, \<open>handleComplete\<close> sets the
  message asking to verify a channel and does nothing else: no request is issued and
  the rest of the state is as before. When a channel is verified it issues
  \<open>POST /onboarding/complete\<close>. No event of the wizard issues that request unless a
  channel is verified.
\<close>

theorem handleComplete_guarded:
  "(\<not> discordVerified (ui r) \<and> \<not> telegramVerified (ui r) \<longrightarrow>
      handleComplete r = r\<lparr> ui := (ui r)\<lparr> error := JStr verify_channel_message \<rparr> \<rparr> \<and>
      requests (handleComplete r) = requests r) \<and>
   (discordVerified (ui r) \<or> telegramVerified (ui r) \<longrightarrow>
      handleComplete r =
        r\<lparr> ui := (ui r)\<lparr> error := JStr [], loading := True \<rparr>,
           requests := requests r @
             [(POST, ''/onboarding/complete'',
               JObj [(''email_notifications_enabled'', JBool (emailEnabled (ui r)))])] \<rparr>) \<and>
   (requests (step r e) = requests r @ [q] \<and> fst (snd q) = ''/onboarding/complete'' \<longrightarrow>
      discordVerified (ui r) \<or> telegramVerified (ui r))"
proof (intro conjI impI)
  assume "\<not> discordVerified (ui r) \<and> \<not> telegramVerified (ui r)"
  then show "handleComplete r = r\<lparr> ui := (ui r)\<lparr> error := JStr verify_channel_message \<rparr> \<rparr>"
    and "requests (handleComplete r) = requests r"
    by (simp_all add: handleComplete_def)
next
  assume "discordVerified (ui r) \<or> telegramVerified (ui r)"
  then show "handleComplete r =
        r\<lparr> ui := (ui r)\<lparr> error := JStr [], loading := True \<rparr>,
           requests := requests r @
             [(POST, ''/onboarding/complete'',
               JObj [(''email_notifications_enabled'', JBool (emailEnabled (ui r)))])] \<rparr>"
    by (auto simp: handleComplete_def complete_request_def)
next
  assume a: "requests (step r e) = requests r @ [q] \<and> fst (snd q) = ''/onboarding/complete''"
  have rq: "requests (step r e) = requests (handle e r)"
    by (simp add: step_def)
  show "discordVerified (ui r) \<or> telegramVerified (ui r)"
  proof (rule ccontr)
    assume n: "\<not> (discordVerified (ui r) \<or> telegramVerified (ui r))"
    have "requests (handle e r) = requests r \<or>
          (\<exists>q'. requests (handle e r) = requests r @ [q'] \<and>
                fst (snd q') \<noteq> ''/onboarding/complete'')"
      using n
      by (cases e)
         (auto simp: commit_def pollEffect_def setInterval_def run_cleanup_def clearInterval_def
            unmount_def loadStatus_done_def handleCreateWebhook_def handleCreateWebhook_done_def
            poll_tick_def poll_done_def poll_request_def handleVerifyDiscord_def
            handleVerifyDiscord_done_def handleVerifyTelegram_def handleVerifyTelegram_done_def
            handleComplete_def handleComplete_done_def complete_disabled_def timeout_fired_def
            Let_def
            split: option.splits outcome.splits list.splits)
    with a rq show False by auto
  qed
qed

theorem handleComplete_guarded_witness:
  "\<not> discordVerified (ui mount) \<and> \<not> telegramVerified (ui mount) \<and>
   requests (handleComplete mount) = requests mount \<and>
   error (ui (handleComplete mount)) = JStr verify_channel_message \<and>
   discordVerified (ui (mount\<lparr> ui := (ui mount)\<lparr> currentStep := 3, discordVerified := True \<rparr> \<rparr>)) \<and>
   requests (step (mount\<lparr> ui := (ui mount)\<lparr> currentStep := 3, discordVerified := True \<rparr> \<rparr>)
               ClickComplete) =
     requests mount @
       [(POST, ''/onboarding/complete'', JObj [(''email_notifications_enabled'', JBool True)])]"
  using handleComplete_guarded[of mount Commit "(GET, [], JUndefined)"]
        handleComplete_guarded[of
          "mount\<lparr> ui := (ui mount)\<lparr> currentStep := 3, discordVerified := True \<rparr> \<rparr>" ClickComplete
          "(POST, ''/onboarding/complete'', JObj [(''email_notifications_enabled'', JBool True)])"]
  by (simp add: mount_ui initial_wizard_def step_def complete_disabled_def)

end
